theory Spec2Isabelle
  imports Main
begin

section \<open>JavaScript values\<close>

text \<open>
  The extension is JavaScript, and most of what it handles is untyped data read from the
  host's configuration store or from a theme file. Such data is JSON. Strings are lists of
  Isabelle characters (code units below 256); numbers are the integers.
  \<open>undefined\<close> is not a JSON value: a property that is absent reads as \<open>None\<close>.
\<close>

datatype json =
    JNull
  | JBool bool
  | JNum int
  | JStr string
  | JArr "json list"
  | JObj "(string \<times> json) list"

text \<open>An object is the list of its own properties, in property order.\<close>

type_synonym jsobject = "(string \<times> json) list"

text \<open>\<open>ToBoolean\<close>: what an \<open>if (v)\<close>, a \<open>!v\<close> or a \<open>v || d\<close> tests.\<close>

fun truthy :: "json \<Rightarrow> bool" where
  "truthy JNull = False"
| "truthy (JBool b) = b"
| "truthy (JNum n) = (n \<noteq> 0)"
| "truthy (JStr s) = (s \<noteq> [])"
| "truthy (JArr xs) = True"
| "truthy (JObj ps) = True"


subsection \<open>Numbers and values as text\<close>

definition digit_char :: "nat \<Rightarrow> char" where
  "digit_char d = char_of (48 + d)"

fun show_nat :: "nat \<Rightarrow> string" where
  "show_nat n = (if n < 10 then [digit_char n] else show_nat (n div 10) @ [digit_char (n mod 10)])"

declare show_nat.simps [simp del]

definition show_int :: "int \<Rightarrow> string" where
  "show_int i = (if i < 0 then CHR ''-'' # show_nat (nat (- i)) else show_nat (nat i))"

fun join :: "string \<Rightarrow> string list \<Rightarrow> string" where
  "join sep [] = []"
| "join sep [x] = x"
| "join sep (x # y # ys) = x @ sep @ join sep (y # ys)"

text \<open>
  \<open>ToString\<close>, as a template literal \<open>`${v}`\<close> applies it. An array prints its elements
  separated by commas, a \<open>null\<close> element as nothing; an object prints as
  \<open>[object Object]\<close>.
\<close>

fun ToString :: "json \<Rightarrow> string" where
  "ToString JNull = ''null''"
| "ToString (JBool b) = (if b then ''true'' else ''false'')"
| "ToString (JNum n) = show_int n"
| "ToString (JStr s) = s"
| "ToString (JArr xs) = join '','' (map (\<lambda>x. if x = JNull then [] else ToString x) xs)"
| "ToString (JObj ps) = ''[object Object]''"

subsection \<open>Objects: property order, definition and assignment\<close>

text \<open>
  An array index is the canonical decimal form of an integer below \<open>2^32 - 1\<close>. The own
  properties of an object are enumerated with the array indices first, in ascending
  order, and the other names after them in the order they were created.
\<close>

text \<open>The code unit of a character, for the ranges of a character class.\<close>

definition code :: "char \<Rightarrow> nat" where
  "code c = of_char c"

definition is_digit :: "char \<Rightarrow> bool" where
  "is_digit c = (48 \<le> code c \<and> code c \<le> 57)"

definition digit_val :: "char \<Rightarrow> nat" where
  "digit_val c = code c - 48"

definition array_index :: "string \<Rightarrow> nat option" where
  "array_index k =
     (if k \<noteq> [] \<and> list_all is_digit k \<and> (length k = 1 \<or> hd k \<noteq> CHR ''0'')
      then (let n = foldl (\<lambda>a c. 10 * a + digit_val c) 0 k
            in if n < 4294967295 then Some n else None)
      else None)"

text \<open>The place of a new property \<open>k\<close> among the existing ones.\<close>

fun insert_prop :: "string \<Rightarrow> json \<Rightarrow> jsobject \<Rightarrow> jsobject" where
  "insert_prop k v [] = [(k, v)]"
| "insert_prop k v ((k', v') # ps) =
     (case array_index k of
        None \<Rightarrow> (k', v') # insert_prop k v ps
      | Some n \<Rightarrow>
          (case array_index k' of
             None \<Rightarrow> (k, v) # (k', v') # ps
           | Some n' \<Rightarrow> if n < n' then (k, v) # (k', v') # ps
                        else (k', v') # insert_prop k v ps))"

fun replace_prop :: "string \<Rightarrow> json \<Rightarrow> jsobject \<Rightarrow> jsobject" where
  "replace_prop k v [] = []"
| "replace_prop k v ((k', v') # ps) =
     (if k' = k then (k, v) # ps else (k', v') # replace_prop k v ps)"

text \<open>
  \<open>CreateDataProperty\<close>, which object spread uses: an existing property keeps its place
  and takes the new value, a new one is created.
\<close>

definition obj_define :: "string \<Rightarrow> json \<Rightarrow> jsobject \<Rightarrow> jsobject" where
  "obj_define k v ps =
     (if k \<in> set (map fst ps) then replace_prop k v ps else insert_prop k v ps)"

text \<open>
  The assignment \<open>obj[k] = v\<close> of a string \<open>v\<close> to an ordinary object. The name
  \<open>__proto__\<close> is inherited as an accessor whose setter ignores a value that is neither
  an object nor \<open>null\<close>, so that assignment creates nothing.
\<close>

definition obj_assign :: "string \<Rightarrow> json \<Rightarrow> jsobject \<Rightarrow> jsobject" where
  "obj_assign k v ps = (if k = ''__proto__'' then ps else obj_define k v ps)"



text \<open>Reading a property \<open>v.k\<close> that no prototype defines; \<open>null.k\<close> throws.\<close>

fun lookup_prop :: "string \<Rightarrow> jsobject \<Rightarrow> json option" where
  "lookup_prop k [] = None"
| "lookup_prop k ((k', v) # ps) = (if k' = k then Some v else lookup_prop k ps)"

section \<open>Global state and the host\<close>

text \<open>
  The module keeps its state in globals (\<open>logger\<close>, \<open>errorCount\<close>, \<open>decorationTypes\<close>) and
  acts on the host editor: the configuration section \<open>commentWizard\<close>, the output channel
  behind \<open>logger\<close>, the console, the notifications shown to the user and the files it
  reads and writes. The functions below pass all of it explicitly. \<open>decorationTypes\<close>
  maps a keyword to the handle of the decoration type created for it. A file is the JSON
  document it holds: \<open>JSON.parse\<close> gives back what \<open>JSON.stringify\<close> wrote, and a path
  that holds no JSON document is one whose reading or parsing throws.
\<close>

datatype notification = Information string | Warning string | Error string

record world =
  logger :: "string list option"
  console :: "string list"
  errorCount :: nat
  configuration :: jsobject
  notifications :: "notification list"
  decorationTypes :: "string \<rightharpoonup> nat"
  files :: "string \<rightharpoonup> json"

text \<open>The state after activation, with no setting stored, no decoration type and no file.\<close>

definition initial_world :: world where
  "initial_world =
     \<lparr>logger = Some [], console = [], errorCount = 0, configuration = [], notifications = [],
      decorationTypes = Map.empty, files = Map.empty\<rparr>"

definition MAX_ERRORS :: nat where
  "MAX_ERRORS = 10"

text \<open>\<open>logger.appendLine(line)\<close> under \<open>if (logger)\<close>.\<close>

definition appendLine :: "string \<Rightarrow> world \<Rightarrow> world" where
  "appendLine line w =
     (case logger w of None \<Rightarrow> w | Some ls \<Rightarrow> w\<lparr>logger := Some (ls @ [line])\<rparr>)"

text \<open>
  \<open>logError(message, error)\<close>. The second argument is the text
  \<open>error.message || error.toString()\<close> of the error passed, if one is.
\<close>

definition logError :: "string \<Rightarrow> string option \<Rightarrow> world \<Rightarrow> world" where
  "logError message error w =
     (let w1 = appendLine (''[ERROR] '' @ message) w;
          w2 = (case error of None \<Rightarrow> w1
                | Some details \<Rightarrow> appendLine (''[ERROR] Details: '' @ details) w1);
          w3 = w2\<lparr>console := console w2 @ [message]\<rparr>;
          w4 = w3\<lparr>errorCount := errorCount w3 + 1\<rparr>
      in if errorCount w4 > MAX_ERRORS
         then appendLine (''[ERROR] Too many errors ('' @ show_nat (errorCount w4)
                            @ ''), stopping logging'') w4
         else w4)"

definition logInfo :: "string \<Rightarrow> world \<Rightarrow> world" where
  "logInfo message w =
     (let w1 = appendLine (''[INFO] '' @ message) w
      in w1\<lparr>console := console w1 @ [message]\<rparr>)"

text \<open>\<open>config.get(key, defaultValue)\<close> and \<open>config.update(key, value, Global)\<close>.\<close>

definition config_get :: "world \<Rightarrow> string \<Rightarrow> json \<Rightarrow> json" where
  "config_get w key dflt = (case lookup_prop key (configuration w) of None \<Rightarrow> dflt | Some v \<Rightarrow> v)"

definition config_update :: "string \<Rightarrow> json \<Rightarrow> world \<Rightarrow> world" where
  "config_update key v w = w\<lparr>configuration := obj_define key v (configuration w)\<rparr>"


text \<open>
  The settings \<open>minKeywordLength\<close> and \<open>maxKeywords\<close> are declared with type number and
  are modelled for number values: a stored value that is not a number is read as the
  default, where JavaScript would coerce it in each comparison.
\<close>

definition config_number :: "world \<Rightarrow> string \<Rightarrow> int \<Rightarrow> int" where
  "config_number w key dflt = (case config_get w key (JNum dflt) of JNum n \<Rightarrow> n | _ \<Rightarrow> dflt)"

section \<open>Keyword validation\<close>



text \<open>\<open>/^#([0-9A-F]{3}|[0-9A-F]{6})$/i.test(color)\<close>\<close>

definition is_hex_digit :: "char \<Rightarrow> bool" where
  "is_hex_digit c =
     (let n = code c in (48 \<le> n \<and> n \<le> 57) \<or> (65 \<le> n \<and> n \<le> 70) \<or> (97 \<le> n \<and> n \<le> 102))"

definition isValidColor :: "string \<Rightarrow> bool" where
  "isValidColor color =
     (case color of
        [] \<Rightarrow> False
      | c # hs \<Rightarrow> c = CHR ''#'' \<and> (length hs = 3 \<or> length hs = 6) \<and> list_all is_hex_digit hs)"

text \<open>\<open>/^[a-zA-Z0-9_-]+$/.test(keyword)\<close>\<close>

definition is_token_char :: "char \<Rightarrow> bool" where
  "is_token_char c =
     (let n = code c
      in (97 \<le> n \<and> n \<le> 122) \<or> (65 \<le> n \<and> n \<le> 90) \<or> (48 \<le> n \<and> n \<le> 57)
         \<or> c = CHR ''_'' \<or> c = CHR ''-'')"

definition token_test :: "string \<Rightarrow> bool" where
  "token_test keyword = (keyword \<noteq> [] \<and> list_all is_token_char keyword)"

text \<open>
  \<open>validateKeyword(keyword, color, minLength)\<close>. The keyword is a property name, hence a
  string; the color is whatever value the setting holds under it.
\<close>

definition validateKeyword :: "string \<Rightarrow> json \<Rightarrow> int \<Rightarrow> world \<Rightarrow> bool \<times> world" where
  "validateKeyword keyword color minLength w =
     (if int (length keyword) < minLength
      then (False, logError (''Invalid keyword: '' @ [CHR 0x27] @ keyword @ [CHR 0x27] @ '' (too short)'') None w)
      else if \<not> token_test keyword
      then (False, logError (''Invalid keyword: '' @ [CHR 0x27] @ keyword @ [CHR 0x27]
                              @ '' (contains invalid characters)'') None w)
      else if (case color of JStr c \<Rightarrow> \<not> isValidColor c | _ \<Rightarrow> True)
      then (False, logError (''Invalid color for keyword '' @ [CHR 0x27] @ keyword @ [CHR 0x27]
                              @ '': '' @ ToString color) None w)
      else (True, w))"


text \<open>
  The loop of \<open>validateKeywords\<close> over \<open>Object.entries(keywords)\<close>, with the object
  \<open>validKeywords\<close> built so far and the counter \<open>count\<close>.
\<close>

fun validateKeywords_loop ::
  "int \<Rightarrow> int \<Rightarrow> jsobject \<Rightarrow> jsobject \<Rightarrow> nat \<Rightarrow> world \<Rightarrow> jsobject \<times> world" where
  "validateKeywords_loop minLength maxKeywords [] validKeywords count w = (validKeywords, w)"
| "validateKeywords_loop minLength maxKeywords ((keyword, color) # rest) validKeywords count w =
     (if int count \<ge> maxKeywords
      then (validKeywords,
            logError (''Maximum keywords ('' @ show_int maxKeywords @ '') exceeded, ignoring ''
                        @ [CHR 0x27] @ keyword @ [CHR 0x27]) None w)
      else (case validateKeyword keyword color minLength w of
              (True, w') \<Rightarrow>
                validateKeywords_loop minLength maxKeywords rest
                  (obj_assign keyword color validKeywords) (count + 1) w'
            | (False, w') \<Rightarrow>
                validateKeywords_loop minLength maxKeywords rest validKeywords count w'))"

definition validateKeywords :: "jsobject \<Rightarrow> world \<Rightarrow> jsobject \<times> world" where
  "validateKeywords keywords w =
     (let minLength = config_number w ''minKeywordLength'' 2;
          maxKeywords = config_number w ''maxKeywords'' 50
      in validateKeywords_loop minLength maxKeywords keywords [] 0 w)"

text \<open>
  \<open>isRegexKeyword(keyword)\<close>: the form \<open>/pattern/\<close> that the matcher treats as a regular
  expression when \<open>enableRegexKeywords\<close> is set.
\<close>

definition isRegexKeyword :: "string \<Rightarrow> bool" where
  "isRegexKeyword keyword =
     (keyword \<noteq> [] \<and> hd keyword = CHR ''/'' \<and> last keyword = CHR ''/'' \<and> length keyword > 2)"


section \<open>Regular expressions\<close>

text \<open>
  The matcher is written with the regular expressions of the language: the comment
  patterns are \<open>RegExp\<close> literals, and one \<open>RegExp\<close> is constructed per comment from the
  keyword. A pattern is its syntax tree. The trees cover characters, the dot, the class
  escapes \<open>\d \w \s\<close> and their complements, classes, the assertions \<open>^ $ \b \B\<close>,
  sequence, alternation, groups (as their bodies: no back references are modelled, so a
  capture does not change where a match ends), and the quantifiers \<open>* + ?\<close>, greedy and
  lazy; \<open>r+\<close> is \<open>r\<close> followed by \<open>r*\<close>.
\<close>

datatype cesc = Digit | Word | Space

datatype citem = CChar char | CRange char char | CEsc bool cesc

datatype rx =
    Eps
  | Lit char
  | Dot
  | Class bool "citem list"
  | Bol
  | Eol
  | WordB
  | NotWordB
  | Cat rx rx
  | Alt rx rx
  | Star bool rx
  | Opt bool rx

definition is_line_terminator :: "char \<Rightarrow> bool" where
  "is_line_terminator c = (code c = 10 \<or> code c = 13)"

definition is_word_char :: "char \<Rightarrow> bool" where
  "is_word_char c =
     (let n = code c
      in (97 \<le> n \<and> n \<le> 122) \<or> (65 \<le> n \<and> n \<le> 90) \<or> (48 \<le> n \<and> n \<le> 57) \<or> n = 95)"

definition is_space :: "char \<Rightarrow> bool" where
  "is_space c = (let n = code c in (9 \<le> n \<and> n \<le> 13) \<or> n = 32 \<or> n = 160)"

text \<open>
  Under the flag \<open>i\<close> two characters are the same when they have the same canonical
  (upper case) form. Among the code units below 256 these are the two cases of a letter:
  the characters a character may stand for are itself and its other case.
\<close>

definition case_variants :: "bool \<Rightarrow> char \<Rightarrow> char list" where
  "case_variants ic c =
     (let n = code c
      in if \<not> ic then [c]
         else if (97 \<le> n \<and> n \<le> 122) \<or> (224 \<le> n \<and> n \<le> 254 \<and> n \<noteq> 247) then [c, char_of (n - 32)]
         else if (65 \<le> n \<and> n \<le> 90) \<or> (192 \<le> n \<and> n \<le> 222 \<and> n \<noteq> 215) then [c, char_of (n + 32)]
         else [c])"

fun esc_has :: "cesc \<Rightarrow> char \<Rightarrow> bool" where
  "esc_has Digit c = is_digit c"
| "esc_has Word c = is_word_char c"
| "esc_has Space c = is_space c"

fun item_has :: "citem \<Rightarrow> char \<Rightarrow> bool" where
  "item_has (CChar a) c = (c = a)"
| "item_has (CRange lo hi) c = (code lo \<le> code c \<and> code c \<le> code hi)"
| "item_has (CEsc negated e) c = (esc_has e c \<noteq> negated)"

definition class_has :: "bool \<Rightarrow> citem list \<Rightarrow> char \<Rightarrow> bool" where
  "class_has ic items c = list_ex (\<lambda>a. list_ex (\<lambda>it. item_has it a) items) (case_variants ic c)"

text \<open>
  \<open>rx_match ic ml s r i\<close> lists the positions at which a match of \<open>r\<close> that starts at
  position \<open>i\<close> of \<open>s\<close> can end, in the order in which the backtracking matcher of the
  language tries them: the first is the end of the match it reports. An iteration of a
  quantifier that matches the empty string is rejected, as the language prescribes.
\<close>

function rx_match :: "bool \<Rightarrow> bool \<Rightarrow> string \<Rightarrow> rx \<Rightarrow> nat \<Rightarrow> nat list" where
  "rx_match ic ml s Eps i = [i]"
| "rx_match ic ml s (Lit c) i =
     (if i < length s \<and> s ! i \<in> set (case_variants ic c) then [i + 1] else [])"
| "rx_match ic ml s Dot i =
     (if i < length s \<and> \<not> is_line_terminator (s ! i) then [i + 1] else [])"
| "rx_match ic ml s (Class negated items) i =
     (if i < length s \<and> class_has ic items (s ! i) \<noteq> negated then [i + 1] else [])"
| "rx_match ic ml s Bol i =
     (if i = 0 \<or> (ml \<and> i \<le> length s \<and> is_line_terminator (s ! (i - 1))) then [i] else [])"
| "rx_match ic ml s Eol i =
     (if i = length s \<or> (ml \<and> i < length s \<and> is_line_terminator (s ! i)) then [i] else [])"
| "rx_match ic ml s WordB i =
     (let a = (0 < i \<and> i \<le> length s \<and> is_word_char (s ! (i - 1)));
          b = (i < length s \<and> is_word_char (s ! i))
      in if a \<noteq> b then [i] else [])"
| "rx_match ic ml s NotWordB i =
     (let a = (0 < i \<and> i \<le> length s \<and> is_word_char (s ! (i - 1)));
          b = (i < length s \<and> is_word_char (s ! i))
      in if a = b then [i] else [])"
| "rx_match ic ml s (Cat r1 r2) i = concat (map (rx_match ic ml s r2) (rx_match ic ml s r1 i))"
| "rx_match ic ml s (Alt r1 r2) i = rx_match ic ml s r1 i @ rx_match ic ml s r2 i"
| "rx_match ic ml s (Star greedy r) i =
     (let more = concat (map (\<lambda>j. if i < j \<and> j \<le> length s
                                    then rx_match ic ml s (Star greedy r) j else [])
                          (rx_match ic ml s r i))
      in if greedy then more @ [i] else i # more)"
| "rx_match ic ml s (Opt greedy r) i =
     (let once = filter (\<lambda>j. j \<noteq> i) (rx_match ic ml s r i)
      in if greedy then once @ [i] else i # once)"
  by pat_completeness auto
termination
  by (relation "measures [\<lambda>(ic, ml, s, r, i). size r, \<lambda>(ic, ml, s, r, i). length s - i]") auto

subsection \<open>RegExp objects and exec\<close>

record regexp =
  source :: rx
  global :: bool
  ignoreCase :: bool
  multiline :: bool
  lastIndex :: nat

text \<open>The result of a successful \<open>exec\<close>: \<open>match.index\<close> and \<open>match[0]\<close>.\<close>

record rmatch =
  index :: nat
  matched :: string

text \<open>The leftmost position from \<open>i\<close> on at which the pattern matches, with the end.\<close>

function search :: "regexp \<Rightarrow> string \<Rightarrow> nat \<Rightarrow> (nat \<times> nat) option" where
  "search re s i =
     (if i > length s then None
      else (case rx_match (ignoreCase re) (multiline re) s (source re) i of
              e # _ \<Rightarrow> Some (i, e)
            | [] \<Rightarrow> search re s (i + 1)))"
  by pat_completeness auto
termination
  by (relation "measure (\<lambda>(re, s, i). length s + 1 - i)") auto

declare search.simps [simp del]

text \<open>
  \<open>re.exec(s)\<close>: a global expression starts at its \<open>lastIndex\<close> and leaves there the end
  of the match, or 0 when there is none; one that is not global starts at 0 and does not
  touch \<open>lastIndex\<close>.
\<close>

definition exec :: "regexp \<Rightarrow> string \<Rightarrow> rmatch option \<times> regexp" where
  "exec re s =
     (case search re s (if global re then lastIndex re else 0) of
        None \<Rightarrow> (None, if global re then re\<lparr>lastIndex := 0\<rparr> else re)
      | Some (i, e) \<Rightarrow>
          (Some \<lparr>index = i, matched = take (e - i) (drop i s)\<rparr>,
           if global re then re\<lparr>lastIndex := e\<rparr> else re))"

subsection \<open>The RegExp constructor\<close>

text \<open>
  \<open>new RegExp(pattern, flags)\<close> parses the pattern text or throws. The parser below
  reads the syntax that the trees above cover, except bracketed classes: it answers
  \<open>NotModelled\<close> for a bracket, a brace, a look-around or named group and for the numeric,
  \<open>\c\<close>, \<open>\x\<close>, \<open>\u\<close> and \<open>\k\<close> escapes, which it does not read. It keeps a stack of open
  groups; each frame holds the alternatives completed so far and the terms of the
  current one, a term being marked when a quantifier may follow it.
\<close>

datatype exn = SyntaxError string | TypeError string | HostError string | NotModelled string

fun exn_message :: "exn \<Rightarrow> string" where
  "exn_message (SyntaxError m) = m"
| "exn_message (TypeError m) = m"
| "exn_message (HostError m) = m"
| "exn_message (NotModelled m) = m"

definition bs :: char where
  "bs = CHR 0x5C"

record frame =
  alts :: "rx list"
  terms :: "(rx \<times> bool) list"

definition empty_frame :: frame where
  "empty_frame = \<lparr>alts = [], terms = []\<rparr>"

definition seq_of :: "(rx \<times> bool) list \<Rightarrow> rx" where
  "seq_of ts = foldr (\<lambda>t acc. Cat (fst t) acc) ts Eps"

fun alt_of :: "rx list \<Rightarrow> rx" where
  "alt_of [] = Eps"
| "alt_of [r] = r"
| "alt_of (r # rs) = Alt r (alt_of rs)"

definition close_frame :: "frame \<Rightarrow> rx" where
  "close_frame f = alt_of (alts f @ [seq_of (terms f)])"

definition add_term :: "rx \<times> bool \<Rightarrow> frame \<Rightarrow> frame" where
  "add_term t f = f\<lparr>terms := terms f @ [t]\<rparr>"

text \<open>The term for the character after a backslash.\<close>

definition escape_term :: "char \<Rightarrow> exn + (rx \<times> bool)" where
  "escape_term e =
     (if e = CHR ''b'' then Inr (WordB, False)
      else if e = CHR ''B'' then Inr (NotWordB, False)
      else if e = CHR ''d'' then Inr (Class False [CEsc False Digit], True)
      else if e = CHR ''D'' then Inr (Class False [CEsc True Digit], True)
      else if e = CHR ''w'' then Inr (Class False [CEsc False Word], True)
      else if e = CHR ''W'' then Inr (Class False [CEsc True Word], True)
      else if e = CHR ''s'' then Inr (Class False [CEsc False Space], True)
      else if e = CHR ''S'' then Inr (Class False [CEsc True Space], True)
      else if e = CHR ''t'' then Inr (Lit (CHR 0x09), True)
      else if e = CHR ''n'' then Inr (Lit (CHR 0x0A), True)
      else if e = CHR ''v'' then Inr (Lit (CHR 0x0B), True)
      else if e = CHR ''f'' then Inr (Lit (CHR 0x0C), True)
      else if e = CHR ''r'' then Inr (Lit (CHR 0x0D), True)
      else if is_digit e \<or> e \<in> set ''cxuk'' then Inl (NotModelled ''escape'')
      else Inr (Lit e, True))"

text \<open>A quantifier applies to the last term, which must admit one.\<close>

definition quantify :: "char \<Rightarrow> bool \<Rightarrow> frame \<Rightarrow> exn + frame" where
  "quantify q greedy f =
     (if terms f = [] \<or> \<not> snd (last (terms f)) then Inl (SyntaxError ''Nothing to repeat'')
      else (let r = fst (last (terms f));
                r' = (if q = CHR ''*'' then Star greedy r
                      else if q = CHR ''+'' then Cat r (Star greedy r)
                      else Opt greedy r)
            in Inr (f\<lparr>terms := butlast (terms f) @ [(r', False)]\<rparr>)))"

fun parse :: "string \<Rightarrow> frame \<Rightarrow> frame list \<Rightarrow> exn + rx" where
  "parse [] cur outer =
     (if outer = [] then Inr (close_frame cur) else Inl (SyntaxError ''Unterminated group''))"
| "parse (c # cs) cur outer =
     (if c = bs then
        (case cs of
           [] \<Rightarrow> Inl (SyntaxError ''Backslash at end of pattern'')
         | e # cs' \<Rightarrow>
             (case escape_term e of
                Inl x \<Rightarrow> Inl x
              | Inr t \<Rightarrow> parse cs' (add_term t cur) outer))
      else if c = CHR ''('' then
        (case cs of
           [] \<Rightarrow> Inl (SyntaxError ''Unterminated group'')
         | d # ds \<Rightarrow>
             if d = CHR ''?'' then
               (case ds of
                  [] \<Rightarrow> Inl (SyntaxError ''Invalid group'')
                | e # es \<Rightarrow>
                    if e = CHR '':'' then parse es empty_frame (cur # outer)
                    else Inl (NotModelled ''group''))
             else parse cs empty_frame (cur # outer))
      else if c = CHR '')'' then
        (case outer of
           [] \<Rightarrow> Inl (SyntaxError ''Unmatched )'')
         | f # fs \<Rightarrow> parse cs (add_term (close_frame cur, True) f) fs)
      else if c = CHR ''|'' then
        parse cs (cur\<lparr>alts := alts cur @ [seq_of (terms cur)], terms := []\<rparr>) outer
      else if c = CHR ''*'' \<or> c = CHR ''+'' \<or> c = CHR ''?'' then
        (case cs of
           [] \<Rightarrow> (case quantify c True cur of Inl x \<Rightarrow> Inl x | Inr cur' \<Rightarrow> parse cs cur' outer)
         | d # ds \<Rightarrow>
             if d = CHR ''?'' then
               (case quantify c False cur of Inl x \<Rightarrow> Inl x | Inr cur' \<Rightarrow> parse ds cur' outer)
             else
               (case quantify c True cur of Inl x \<Rightarrow> Inl x | Inr cur' \<Rightarrow> parse cs cur' outer))
      else if c = CHR ''['' \<or> c = CHR ''{'' then Inl (NotModelled ''class or braces'')
      else if c = CHR ''.'' then parse cs (add_term (Dot, True) cur) outer
      else if c = CHR ''^'' then parse cs (add_term (Bol, False) cur) outer
      else if c = CHR ''$'' then parse cs (add_term (Eol, False) cur) outer
      else parse cs (add_term (Lit c, True) cur) outer)"

text \<open>Of the flags, the code passes \<open>'g'\<close> and \<open>'gi'\<close>; the literals carry \<open>gm\<close>.\<close>

definition RegExp_new :: "string \<Rightarrow> string \<Rightarrow> exn + regexp" where
  "RegExp_new pattern flags =
     (case parse pattern empty_frame [] of
        Inl x \<Rightarrow> Inl x
      | Inr r \<Rightarrow> Inr \<lparr>source = r, global = (CHR ''g'' \<in> set flags),
                     ignoreCase = (CHR ''i'' \<in> set flags),
                     multiline = (CHR ''m'' \<in> set flags), lastIndex = 0\<rparr>)"

text \<open>
  \<open>escapeRegExp(string)\<close> is \<open>string.replace(/[.*+?^${}()|[\]\\]/g, '\\$&')\<close>: a backslash
  goes before each of the characters of the class.
\<close>

definition special :: "char \<Rightarrow> bool" where
  "special c = (c \<in> set ''.*+?^${}()|[]'' \<or> c = bs)"

definition escapeRegExp :: "string \<Rightarrow> string" where
  "escapeRegExp string = concat (map (\<lambda>c. if special c then [bs, c] else [c]) string)"

text \<open>
  The tree of \<open>\b\<close>, the characters of the keyword, \<open>\b\<close>: what the constructor makes of
  an escaped keyword between two word boundaries.
\<close>

definition keyword_rx :: "string \<Rightarrow> rx" where
  "keyword_rx k = seq_of ((WordB, False) # map (\<lambda>c. (Lit c, True)) k @ [(WordB, False)])"


section \<open>The comment patterns\<close>

text \<open>
  \<open>getCommentPatterns(languageId)\<close> evaluates \<open>RegExp\<close> literals, all with the flags \<open>gm\<close>,
  so each call returns fresh objects with \<open>lastIndex\<close> 0. A line comment \<open>/<open>.*$/gm\<close>
  runs from its opening token to the end of the line; a block comment
  \<open>/<open>[\s\S]*?<close>/gm\<close> runs to the nearest closing token.
\<close>

record descriptor =
  type :: string
  pattern :: regexp

definition cat_list :: "rx list \<Rightarrow> rx" where
  "cat_list rs = foldr Cat rs Eps"

definition regex_gm :: "rx \<Rightarrow> regexp" where
  "regex_gm r = \<lparr>source = r, global = True, ignoreCase = False, multiline = True, lastIndex = 0\<rparr>"

definition single :: "string \<Rightarrow> descriptor" where
  "single opening =
     \<lparr>type = ''single'', pattern = regex_gm (cat_list (map Lit opening @ [Star True Dot, Eol]))\<rparr>"

definition multi :: "string \<Rightarrow> string \<Rightarrow> descriptor" where
  "multi opening closing =
     \<lparr>type = ''multi'',
      pattern = regex_gm (cat_list (map Lit opening
                  @ [Star False (Class False [CEsc False Space, CEsc True Space])]
                  @ map Lit closing))\<rparr>"

definition c_style :: "descriptor list" where
  "c_style = [single ''//'', multi ''/*'' ''*/'']"

definition hash_only :: "descriptor list" where
  "hash_only = [single ''#'']"

text \<open>A language that the table does not list has no patterns.\<close>

definition getCommentPatterns :: "string \<Rightarrow> descriptor list" where
  "getCommentPatterns languageId =
     (if languageId \<in> set [''javascript'', ''typescript'', ''java'', ''c'', ''cpp'', ''csharp'',
                             ''go'', ''rust'', ''kotlin'', ''swift'', ''dart'', ''scala'']
      then c_style
      else if languageId = ''python''
      then [single ''#'', multi [CHR 0x22, CHR 0x22, CHR 0x22] [CHR 0x22, CHR 0x22, CHR 0x22],
            multi [CHR 0x27, CHR 0x27, CHR 0x27] [CHR 0x27, CHR 0x27, CHR 0x27]]
      else if languageId = ''html'' \<or> languageId = ''xml'' then [multi ''<!--'' ''-->'']
      else if languageId = ''css'' then [multi ''/*'' ''*/'']
      else if languageId = ''sql'' then [single ''--'', multi ''/*'' ''*/'']
      else if languageId = ''php'' then [single ''//'', single ''#'', multi ''/*'' ''*/'']
      else if languageId = ''ruby'' then [single ''#'', multi ''=begin'' ''=end'']
      else if languageId \<in> set [''yaml'', ''shell'', ''bash'', ''dockerfile'', ''powershell'',
                                  ''r'', ''perl'']
      then hash_only
      else if languageId = ''lua'' then [single ''--'', multi ''--[['' '']]'']
      else [])"

section \<open>The keyword matcher\<close>

text \<open>
  A range \<open>new vscode.Range(document.positionAt(a), document.positionAt(b))\<close> is kept as
  the two offsets \<open>a\<close> and \<open>b\<close> into the text of the document.
\<close>

datatype span = Span (startOffset: nat) (endOffset: nat)

text \<open>
  The inner loop of \<open>findCommentKeywords\<close>,
  \<open>while ((keywordMatch = keywordRegex.exec(commentText)) !== null)\<close>: each match adds the
  range that starts at the match and is as long as the keyword. A loop that does not
  end has no result.
\<close>

partial_function (option) keyword_loop ::
  "regexp \<Rightarrow> string \<Rightarrow> nat \<Rightarrow> string \<Rightarrow> span list \<Rightarrow> span list option" where
  "keyword_loop keywordRegex commentText commentStart keyword ranges =
     (case exec keywordRegex commentText of
        (None, keywordRegex') \<Rightarrow> Some ranges
      | (Some keywordMatch, keywordRegex') \<Rightarrow>
          keyword_loop keywordRegex' commentText commentStart keyword
            (ranges @ [Span (commentStart + index keywordMatch)
                            (commentStart + index keywordMatch + length keyword)]))"

declare keyword_loop.simps [code]

text \<open>
  The outer loop, \<open>while ((match = pattern.pattern.exec(text)) !== null)\<close>. The result is
  the exception that left the loop, if one did, the ranges, and the pattern object as
  the loop leaves it.
\<close>

partial_function (option) comment_loop ::
  "regexp \<Rightarrow> string \<Rightarrow> string \<Rightarrow> json \<Rightarrow> span list
     \<Rightarrow> (exn option \<times> span list \<times> regexp) option" where
  "comment_loop pat text keyword caseSensitive ranges =
     (case exec pat text of
        (None, pat') \<Rightarrow> Some (None, ranges, pat')
      | (Some match, pat') \<Rightarrow>
          (case RegExp_new ([bs, CHR ''b''] @ escapeRegExp keyword @ [bs, CHR ''b''])
                  (if truthy caseSensitive then ''g'' else ''gi'') of
             Inl e \<Rightarrow> Some (Some e, ranges, pat')
           | Inr keywordRegex \<Rightarrow>
               Option.bind (keyword_loop keywordRegex (matched match) (index match) keyword ranges)
                 (\<lambda>ranges'. comment_loop pat' text keyword caseSensitive ranges')))"

declare comment_loop.simps [code]

text \<open>
  The body of \<open>commentPatterns.forEach\<close>: the loop, then \<open>pattern.pattern.lastIndex = 0\<close>;
  an exception skips the reset and is logged.
\<close>

definition keyword_pattern ::
  "string \<Rightarrow> string \<Rightarrow> json \<Rightarrow> descriptor \<Rightarrow> span list \<Rightarrow> world
     \<Rightarrow> (descriptor \<times> span list \<times> world) option" where
  "keyword_pattern text keyword caseSensitive d ranges w =
     Option.bind (comment_loop (pattern d) text keyword caseSensitive ranges)
       (\<lambda>(thrown, ranges', pat').
          case thrown of
            None \<Rightarrow> Some (d\<lparr>pattern := pat'\<lparr>lastIndex := 0\<rparr>\<rparr>, ranges', w)
          | Some e \<Rightarrow>
              Some (d\<lparr>pattern := pat'\<rparr>, ranges',
                    logError (''Error processing pattern for keyword '' @ [CHR 0x27] @ keyword
                                @ [CHR 0x27]) (Some (exn_message e)) w))"

text \<open>
  \<open>forEach\<close> over the descriptors, with the body \<open>f\<close>: the descriptors come back as the
  calls left their pattern objects.
\<close>

fun forEach_pattern ::
  "(descriptor \<Rightarrow> span list \<Rightarrow> world \<Rightarrow> (descriptor \<times> span list \<times> world) option)
     \<Rightarrow> descriptor list \<Rightarrow> span list \<Rightarrow> world
     \<Rightarrow> (descriptor list \<times> span list \<times> world) option" where
  "forEach_pattern f [] ranges w = Some ([], ranges, w)"
| "forEach_pattern f (d # ds) ranges w =
     Option.bind (f d ranges w)
       (\<lambda>(d', ranges', w').
          Option.bind (forEach_pattern f ds ranges' w')
            (\<lambda>(ds', ranges'', w''). Some (d' # ds', ranges'', w'')))"

text \<open>
  The loops of \<open>findRegexKeywords\<close>: as above, but the expression is the user's pattern
  and a range is as long as the match.
\<close>

partial_function (option) regex_loop ::
  "regexp \<Rightarrow> string \<Rightarrow> nat \<Rightarrow> span list \<Rightarrow> span list option" where
  "regex_loop userRegex commentText commentStart ranges =
     (case exec userRegex commentText of
        (None, userRegex') \<Rightarrow> Some ranges
      | (Some regexMatch, userRegex') \<Rightarrow>
          regex_loop userRegex' commentText commentStart
            (ranges @ [Span (commentStart + index regexMatch)
                            (commentStart + index regexMatch + length (matched regexMatch))]))"

declare regex_loop.simps [code]

partial_function (option) regex_comment_loop ::
  "regexp \<Rightarrow> string \<Rightarrow> string \<Rightarrow> string \<Rightarrow> span list
     \<Rightarrow> (exn option \<times> span list \<times> regexp) option" where
  "regex_comment_loop pat text regexPattern flags ranges =
     (case exec pat text of
        (None, pat') \<Rightarrow> Some (None, ranges, pat')
      | (Some match, pat') \<Rightarrow>
          (case RegExp_new regexPattern flags of
             Inl e \<Rightarrow> Some (Some e, ranges, pat')
           | Inr userRegex \<Rightarrow>
               Option.bind (regex_loop userRegex (matched match) (index match) ranges)
                 (\<lambda>ranges'. regex_comment_loop pat' text regexPattern flags ranges')))"

declare regex_comment_loop.simps [code]

definition regex_pattern ::
  "string \<Rightarrow> string \<Rightarrow> string \<Rightarrow> string \<Rightarrow> descriptor \<Rightarrow> span list \<Rightarrow> world
     \<Rightarrow> (descriptor \<times> span list \<times> world) option" where
  "regex_pattern text regexKeyword regexPattern flags d ranges w =
     Option.bind (regex_comment_loop (pattern d) text regexPattern flags ranges)
       (\<lambda>(thrown, ranges', pat').
          case thrown of
            None \<Rightarrow> Some (d\<lparr>pattern := pat'\<lparr>lastIndex := 0\<rparr>\<rparr>, ranges', w)
          | Some e \<Rightarrow>
              Some (d\<lparr>pattern := pat'\<rparr>, ranges',
                    logError (''Error processing regex pattern '' @ [CHR 0x27] @ regexKeyword
                                @ [CHR 0x27]) (Some (exn_message e)) w))"

text \<open>
  \<open>findRegexKeywords(document, regexKeyword, commentPatterns, caseSensitive)\<close>, on the text
  of the document; \<open>regexKeyword.slice(1, -1)\<close> drops the two slashes.
\<close>

definition findRegexKeywords ::
  "string \<Rightarrow> string \<Rightarrow> descriptor list \<Rightarrow> json \<Rightarrow> world
     \<Rightarrow> (span list \<times> descriptor list \<times> world) option" where
  "findRegexKeywords text regexKeyword commentPatterns caseSensitive w =
     (let regexPattern = butlast (tl regexKeyword);
          flags = (if truthy caseSensitive then ''g'' else ''gi'')
      in Option.bind
           (forEach_pattern (regex_pattern text regexKeyword regexPattern flags) commentPatterns [] w)
           (\<lambda>(commentPatterns', ranges, w'). Some (ranges, commentPatterns', w')))"

text \<open>
  \<open>findCommentKeywords(document, keyword, commentPatterns, caseSensitive)\<close>. Beside the
  ranges it returns, the call leaves its mark on the pattern objects and on the log.
\<close>

definition findCommentKeywords ::
  "string \<Rightarrow> string \<Rightarrow> descriptor list \<Rightarrow> json \<Rightarrow> world
     \<Rightarrow> (span list \<times> descriptor list \<times> world) option" where
  "findCommentKeywords text keyword commentPatterns caseSensitive w =
     (let enableRegex = config_get w ''enableRegexKeywords'' (JBool False)
      in if truthy enableRegex \<and> isRegexKeyword keyword
         then findRegexKeywords text keyword commentPatterns caseSensitive w
         else Option.bind
                (forEach_pattern (keyword_pattern text keyword caseSensitive) commentPatterns [] w)
                (\<lambda>(commentPatterns', ranges, w'). Some (ranges, commentPatterns', w')))"

text \<open>
  A pattern object advances when it is global and its expression matches no empty
  string: each \<open>exec\<close> that finds a match then moves \<open>lastIndex\<close> forward.
\<close>

definition advancing :: "regexp \<Rightarrow> bool" where
  "advancing re =
     (global re
      \<and> (\<forall>s i j. j \<in> set (rx_match (ignoreCase re) (multiline re) s (source re) i) \<longrightarrow> i < j))"

text \<open>A descriptor with the cursor of its pattern object back at 0.\<close>

definition rewound :: "descriptor \<Rightarrow> descriptor" where
  "rewound d = d\<lparr>pattern := (pattern d)\<lparr>lastIndex := 0\<rparr>\<rparr>"



section \<open>Scanning a document\<close>

text \<open>
  The editor shows, for a decoration type, the ranges last set for it.
  \<open>editor.setDecorations\<close> is a call into the host; \<open>faulty\<close> lists the decoration types for
  which the host throws.
\<close>

record editor =
  documentText :: string
  languageId :: string
  decorations :: "nat \<rightharpoonup> span list"
  faulty :: "nat list"


text \<open>
  The editor after the body of the scan has handled a keyword whose ranges are \<open>rs\<close> and
  whose decoration type, if it has one, is \<open>dt\<close>.
\<close>

definition shown :: "span list \<Rightarrow> nat option \<Rightarrow> editor \<Rightarrow> editor" where
  "shown rs dt ed =
     (case dt of
        None \<Rightarrow> ed
      | Some h \<Rightarrow> if rs \<noteq> [] \<and> h \<notin> set (faulty ed)
                  then ed\<lparr>decorations := (decorations ed)(h \<mapsto> rs)\<rparr> else ed)"






section \<open>Commands\<close>

definition showErrorMessage :: "string \<Rightarrow> world \<Rightarrow> world" where
  "showErrorMessage m w = w\<lparr>notifications := notifications w @ [Error m]\<rparr>"

definition showInformationMessage :: "string \<Rightarrow> world \<Rightarrow> world" where
  "showInformationMessage m w = w\<lparr>notifications := notifications w @ [Information m]\<rparr>"

text \<open>
  The check \<open>validateInput\<close> that \<open>addCustomKeyword\<close> gives the input box for the keyword:
  the message to show, or \<open>None\<close> when the input is accepted.
\<close>

definition trim :: "string \<Rightarrow> string" where
  "trim s = rev (dropWhile is_space (rev (dropWhile is_space s)))"

definition is_input_char :: "char \<Rightarrow> bool" where
  "is_input_char c = (is_token_char c \<or> c = CHR ''/'')"

definition addCustomKeyword_validateInput :: "string \<Rightarrow> string option" where
  "addCustomKeyword_validateInput v =
     (if v = [] \<or> length (trim v) < 2 then Some ''Keyword must be at least 2 characters long''
      else if \<not> (v \<noteq> [] \<and> list_all is_input_char v) then Some ''Keyword contains invalid characters''
      else None)"

subsection \<open>Themes\<close>

text \<open>
  \<open>exportTheme()\<close>. The date in the name is that of the day, \<open>uri\<close> is the answer of the
  save dialog, \<open>None\<close> when the user cancels.
\<close>

definition theme_of :: "string \<Rightarrow> world \<Rightarrow> json" where
  "theme_of today w =
     JObj [(''name'', JStr (''Comment Wizard Theme - '' @ today)),
           (''version'', JStr ''1.0.0''),
           (''keywords'', config_get w ''keywords'' (JObj [])),
           (''customKeywords'', config_get w ''customKeywords'' (JObj [])),
           (''settings'',
              JObj [(''caseSensitive'', config_get w ''caseSensitive'' (JBool False)),
                    (''highlightStyle'', config_get w ''highlightStyle'' (JStr ''text'')),
                    (''fontWeight'', config_get w ''fontWeight'' (JStr ''bold'')),
                    (''showIcons'', config_get w ''showIcons'' (JBool False)),
                    (''enableRegexKeywords'', config_get w ''enableRegexKeywords'' (JBool False))])]"

definition exportTheme :: "string \<Rightarrow> string option \<Rightarrow> world \<Rightarrow> world" where
  "exportTheme today uri w =
     (let theme = theme_of today w
      in case uri of
           None \<Rightarrow> w
         | Some path \<Rightarrow>
             showInformationMessage (''Theme exported to: '' @ path)
               (w\<lparr>files := (files w)(path \<mapsto> theme)\<rparr>))"

text \<open>
  Reading a property of a value of a theme: \<open>undefined\<close> (here \<open>None\<close>) when the value has
  no such property, a \<open>TypeError\<close> when the value is \<open>null\<close>.
\<close>

definition get_prop :: "json \<Rightarrow> string \<Rightarrow> exn + json option" where
  "get_prop v k =
     (case v of
        JNull \<Rightarrow> Inl (TypeError ''Cannot read properties of null'')
      | JObj ps \<Rightarrow> Inr (lookup_prop k ps)
      | _ \<Rightarrow> Inr None)"

text \<open>Whether a document is an object with the property \<open>k\<close>.\<close>

definition has_property :: "json \<Rightarrow> string \<Rightarrow> bool" where
  "has_property v k = (case v of JObj ps \<Rightarrow> lookup_prop k ps \<noteq> None | _ \<Rightarrow> False)"

definition truthy_opt :: "json option \<Rightarrow> bool" where
  "truthy_opt v = (case v of None \<Rightarrow> False | Some x \<Rightarrow> truthy x)"

text \<open>\<open>if (settings.key !== undefined) await config.update(key, settings.key, Global)\<close>\<close>

definition import_setting :: "json \<Rightarrow> string \<Rightarrow> world \<Rightarrow> world" where
  "import_setting settings key w =
     (case get_prop settings key of
        Inr (Some v) \<Rightarrow> config_update key v w
      | _ \<Rightarrow> w)"

text \<open>
  The \<open>try\<close> block of \<open>importTheme()\<close> once a file is chosen. It throws before it changes
  anything or not at all.
\<close>

definition importTheme_try :: "string \<Rightarrow> world \<Rightarrow> exn + world" where
  "importTheme_try path w =
     (case files w path of
        None \<Rightarrow> Inl (HostError ''Unable to read or parse the file'')
      | Some theme \<Rightarrow>
          (case get_prop theme ''keywords'' of
             Inl e \<Rightarrow> Inl e
           | Inr keywords \<Rightarrow>
               (case get_prop theme ''customKeywords'' of
                  Inl e \<Rightarrow> Inl e
                | Inr customKeywords \<Rightarrow>
                    if \<not> truthy_opt keywords \<and> \<not> truthy_opt customKeywords
                    then Inr (showErrorMessage ''Invalid theme file: missing keywords'' w)
                    else
                      (let w1 = (if truthy_opt keywords
                                 then config_update ''keywords'' (the keywords) w else w);
                           w2 = (if truthy_opt customKeywords
                                 then config_update ''customKeywords'' (the customKeywords) w1
                                 else w1);
                           w3 = (case get_prop theme ''settings'' of
                                   Inr (Some settings) \<Rightarrow>
                                     if truthy settings
                                     then import_setting settings ''enableRegexKeywords''
                                           (import_setting settings ''showIcons''
                                             (import_setting settings ''fontWeight''
                                               (import_setting settings ''highlightStyle''
                                                 (import_setting settings ''caseSensitive'' w2))))
                                     else w2
                                 | _ \<Rightarrow> w2);
                           name = (case get_prop theme ''name'' of
                                     Inr (Some n) \<Rightarrow> if truthy n then ToString n else ''Unnamed theme''
                                   | _ \<Rightarrow> ''Unnamed theme'')
                       in Inr (showInformationMessage
                                 (''Theme imported successfully: '' @ name) w3)))))"

text \<open>
  \<open>importTheme()\<close>; \<open>uri\<close> is the answer of the open dialog. The result says whether the
  call throws: the \<open>catch\<close> block logs, tells the user, and throws again.
\<close>

definition importTheme :: "string option \<Rightarrow> world \<Rightarrow> exn option \<times> world" where
  "importTheme uri w =
     (case uri of
        None \<Rightarrow> (None, w)
      | Some path \<Rightarrow>
          (case importTheme_try path w of
             Inr w' \<Rightarrow> (None, w')
           | Inl e \<Rightarrow>
               (Some e,
                showErrorMessage ''Failed to import theme. Please check the file format.''
                  (logError ''Error importing theme'' (Some (exn_message e)) w))))"

text \<open>The handler registered for the command \<open>commentWizard.importTheme\<close>.\<close>

definition importThemeCommand :: "string option \<Rightarrow> world \<Rightarrow> world" where
  "importThemeCommand uri w =
     (case importTheme uri w of
        (None, w') \<Rightarrow> w'
      | (Some e, w') \<Rightarrow>
          showErrorMessage ''Failed to import theme. See output for details.''
            (logError ''Error in import theme command'' (Some (exn_message e)) w'))"



section \<open>The error log\<close>

lemma appendLine_logger:
  "logger w = Some ls \<Longrightarrow> logger (appendLine l w) = Some (ls @ [l])"
  by (simp add: appendLine_def)

text \<open>
  Whatever the counter says, an open log receives the line of the error reported: the
  counter is compared only after the lines are written.
\<close>

lemma logError_always_appends:
  "logger w = Some ls \<Longrightarrow>
     \<exists>rest. logger (logError m e w) = Some (ls @ (''[ERROR] '' @ m) # rest)"
  by (cases e) (simp_all add: logError_def appendLine_def Let_def)

text \<open>
  Claim C5: once more than ten errors have been reported, a further call of the error
  routine appends no line for the new error. The code does otherwise: with eleven
  errors counted, reporting one more appends the line of that error and then a second
  line that announces the end of logging.
\<close>

theorem logError_past_cap:
  "logger (logError ''boom'' None (initial_world\<lparr>errorCount := 11\<rparr>))
     = Some [''[ERROR] boom'', ''[ERROR] Too many errors (12), stopping logging'']"
  by code_simp

section \<open>Objects and the configuration\<close>










lemma logError_errorCount [simp]: "errorCount (logError m e w) = errorCount w + 1"
  by (cases e; cases "logger w") (simp_all add: logError_def appendLine_def Let_def)

lemma logError_configuration [simp]: "configuration (logError m e w) = configuration w"
  by (cases e; cases "logger w") (simp_all add: logError_def appendLine_def Let_def)

lemma logError_notifications [simp]: "notifications (logError m e w) = notifications w"
  by (cases e; cases "logger w") (simp_all add: logError_def appendLine_def Let_def)

lemma logError_files [simp]: "files (logError m e w) = files w"
  by (cases e; cases "logger w") (simp_all add: logError_def appendLine_def Let_def)

lemma logError_decorationTypes [simp]: "decorationTypes (logError m e w) = decorationTypes w"
  by (cases e; cases "logger w") (simp_all add: logError_def appendLine_def Let_def)

section \<open>Validation of the keywords\<close>



text \<open>
  Claim C1: validation accepts an entry exactly when the token is long enough, is a
  literal token or a regular expression wrapper \<open>/pattern/\<close>, and the color is a hex
  color; in particular a wrapper with a valid color passes. The code tests the literal
  character set alone: the wrapper \<open>/TODO/\<close> with the color \<open>#FF0000\<close> is rejected and
  dropped from the set, although the matcher recognises it as a regular expression
  keyword and the input box of the command that adds keywords accepts it.
\<close>

theorem regex_wrapper_rejected:
  "fst (validateKeyword ''/TODO/'' (JStr ''#FF0000'') 2 initial_world) = False
   \<and> fst (validateKeywords [(''/TODO/'', JStr ''#FF0000'')] initial_world) = []
   \<and> isRegexKeyword ''/TODO/'' \<and> isValidColor ''#FF0000''
   \<and> addCustomKeyword_validateInput ''/TODO/'' = None"
  by code_simp








section \<open>Themes\<close>

text \<open>
  Claim C8: an import needs one of the keys \<open>keywords\<close> and \<open>customKeywords\<close> in the
  parsed document; when the document has neither, the import is refused with an error
  shown to the user, and no key of the configuration is written.
\<close>

theorem importTheme_without_keywords:
  assumes "files w path = Some theme"
    and "\<not> has_property theme ''keywords''" and "\<not> has_property theme ''customKeywords''"
  shows "configuration (snd (importTheme (Some path) w)) = configuration w
         \<and> (\<exists>m. notifications (snd (importTheme (Some path) w)) = notifications w @ [Error m])"
  using assms
  by (cases theme)
     (simp_all add: importTheme_def importTheme_try_def get_prop_def truthy_opt_def
        showErrorMessage_def has_property_def)

theorem importTheme_without_keywords_witness:
  "files (initial_world\<lparr>files := [''theme.json'' \<mapsto> JObj [(''name'', JStr ''mine'')]]\<rparr>) ''theme.json''
     = Some (JObj [(''name'', JStr ''mine'')])
   \<and> \<not> has_property (JObj [(''name'', JStr ''mine'')]) ''keywords''
   \<and> \<not> has_property (JObj [(''name'', JStr ''mine'')]) ''customKeywords''
   \<and> configuration (snd (importTheme (Some ''theme.json'')
         (initial_world\<lparr>files := [''theme.json'' \<mapsto> JObj [(''name'', JStr ''mine'')]]\<rparr>)))
       = configuration (initial_world\<lparr>files := [''theme.json'' \<mapsto> JObj [(''name'', JStr ''mine'')]]\<rparr>)
   \<and> (\<exists>m. notifications (snd (importTheme (Some ''theme.json'')
         (initial_world\<lparr>files := [''theme.json'' \<mapsto> JObj [(''name'', JStr ''mine'')]]\<rparr>)))
       = notifications (initial_world\<lparr>files := [''theme.json'' \<mapsto> JObj [(''name'', JStr ''mine'')]]\<rparr>)
         @ [Error m])"
  using importTheme_without_keywords
    [of "initial_world\<lparr>files := [''theme.json'' \<mapsto> JObj [(''name'', JStr ''mine'')]]\<rparr>"
        "''theme.json''" "JObj [(''name'', JStr ''mine'')]"]
  by (simp add: has_property_def)


lemma exportTheme_configuration [simp]:
  "configuration (exportTheme today uri w) = configuration w"
  by (cases uri) (simp_all add: exportTheme_def showInformationMessage_def)

lemma exportTheme_config_get [simp]:
  "config_get (exportTheme today uri w) k d = config_get w k d"
  by (simp add: config_get_def)

lemma theme_of_export [simp]: "theme_of today (exportTheme today' uri w) = theme_of today w"
  by (simp add: theme_of_def)



lemma showInformationMessage_config_get [simp]:
  "config_get (showInformationMessage m w) k d = config_get w k d"
  by (simp add: config_get_def showInformationMessage_def)

lemma showErrorMessage_config_get [simp]:
  "config_get (showErrorMessage m w) k d = config_get w k d"
  by (simp add: config_get_def showErrorMessage_def)

lemma files_config_get [simp]:
  "config_get (w\<lparr>files := f\<rparr>) k d = config_get w k d"
  by (simp add: config_get_def)







section \<open>The regular expressions\<close>

text \<open>A match ends at or after the position where it starts, and within the text.\<close>

lemma rx_match_bounds:
  "j \<in> set (rx_match ic ml s r i) \<Longrightarrow> i \<le> j \<and> (i \<le> length s \<longrightarrow> j \<le> length s)"
proof (induction ic ml s r i arbitrary: j rule: rx_match.induct)
  case (9 ic ml s r1 r2 i)
  then obtain k where k: "k \<in> set (rx_match ic ml s r1 i)" and j: "j \<in> set (rx_match ic ml s r2 k)"
    by auto
  from "9.IH"(1) [OF k] "9.IH"(2) [OF k j] show ?case by auto
next
  case (11 ic ml s greedy r i)
  let ?more = "concat (map (\<lambda>k. if i < k \<and> k \<le> length s
                                    then rx_match ic ml s (Star greedy r) k else [])
                          (rx_match ic ml s r i))"
  have unfold: "rx_match ic ml s (Star greedy r) i = (if greedy then ?more @ [i] else i # ?more)"
    by (subst rx_match.simps) (simp only: Let_def)
  show ?case
  proof (cases "j = i")
    case True
    then show ?thesis by simp
  next
    case False
    with "11.prems" have "j \<in> set ?more"
      unfolding unfold by (cases greedy) (simp_all del: rx_match.simps)
    then obtain k where k: "k \<in> set (rx_match ic ml s r i)"
      and c: "i < k \<and> k \<le> length s" and j: "j \<in> set (rx_match ic ml s (Star greedy r) k)"
      by (auto simp del: rx_match.simps split: if_splits)
    from "11.IH"(2) [OF k c j] c show ?thesis by auto
  qed
next
  case (1 ic ml s i) then show ?case by simp
next
  case (2 ic ml s c i) then show ?case by (simp split: if_splits)
next
  case (3 ic ml s i) then show ?case by (simp split: if_splits)
next
  case (4 ic ml s n items i) then show ?case by (simp split: if_splits)
next
  case (5 ic ml s i) then show ?case by (simp split: if_splits)
next
  case (6 ic ml s i) then show ?case by (simp split: if_splits)
next
  case (7 ic ml s i) then show ?case by (simp add: Let_def split: if_splits)
next
  case (8 ic ml s i) then show ?case by (simp add: Let_def split: if_splits)
next
  case (10 ic ml s r1 r2 i) then show ?case by auto
next
  case (12 ic ml s greedy r i) then show ?case by (auto simp: Let_def split: if_splits)
qed

declare rx_match.simps(11) [simp del]

lemma rx_match_Lit_seq:
  "j \<in> set (rx_match ic ml s (foldr Cat (map Lit k) r) i)
     \<Longrightarrow> j \<in> set (rx_match ic ml s r (i + length k))"
proof (induction k arbitrary: i)
  case Nil
  then show ?case by simp
next
  case (Cons c k)
  from Cons.prems have "j \<in> set (rx_match ic ml s (foldr Cat (map Lit k) r) (i + 1))"
    by (auto split: if_splits)
  from Cons.IH [OF this] show ?case by simp
qed

lemma seq_of_Lits:
  "seq_of (map (\<lambda>c. (Lit c, True)) k @ ts) = foldr Cat (map Lit k) (seq_of ts)"
  by (induction k) (simp_all add: seq_of_def)

lemma keyword_rx_alt: "keyword_rx k = Cat WordB (foldr Cat (map Lit k) (Cat WordB Eps))"
  using seq_of_Lits [of k "[(WordB, False)]"] by (simp add: keyword_rx_def seq_of_def)

lemma rx_match_keyword_rx:
  assumes "j \<in> set (rx_match ic ml s (keyword_rx k) i)"
  shows "j = i + length k"
proof -
  from assms have "j \<in> set (rx_match ic ml s (foldr Cat (map Lit k) (Cat WordB Eps)) i)"
    by (auto simp: keyword_rx_alt Let_def split: if_splits)
  from rx_match_Lit_seq [OF this] show ?thesis
    by (auto simp: Let_def split: if_splits)
qed

lemma search_Some:
  "search re s i = Some (a, e) \<Longrightarrow>
     i \<le> a \<and> a \<le> length s \<and> e \<in> set (rx_match (ignoreCase re) (multiline re) s (source re) a)"
proof (induction re s i rule: search.induct)
  case (1 re s i)
  show ?case
  proof (cases "rx_match (ignoreCase re) (multiline re) s (source re) i")
    case Nil
    with "1.prems" have le: "\<not> length s < i" and "search re s (i + 1) = Some (a, e)"
      by (auto simp: search.simps [of re s i] split: if_splits)
    from "1.IH" [OF le Nil this(2)] show ?thesis by simp
  next
    case (Cons x xs)
    with "1.prems" show ?thesis
      by (auto simp: search.simps [of re s i] split: if_splits)
  qed
qed

lemma exec_advances:
  assumes "advancing re" and "exec re s = (Some m, re')"
  shows "lastIndex re < lastIndex re' \<and> lastIndex re' \<le> length s \<and> advancing re'"
proof -
  from assms(1) have g: "global re" by (simp add: advancing_def)
  with assms(2) obtain a e where found: "search re s (lastIndex re) = Some (a, e)"
    and re': "re' = re\<lparr>lastIndex := e\<rparr>"
    by (auto simp: exec_def split: option.splits)
  from search_Some [OF found] have a: "lastIndex re \<le> a" "a \<le> length s"
    and e: "e \<in> set (rx_match (ignoreCase re) (multiline re) s (source re) a)" by simp_all
  from assms(1) e have "a < e" by (simp add: advancing_def)
  moreover from rx_match_bounds [OF e] a have "e \<le> length s" by simp
  moreover have "advancing re'" using assms(1) by (simp add: re' advancing_def)
  ultimately show ?thesis using a by (simp add: re')
qed

lemma exec_keeps:
  "exec re s = (m, re') \<Longrightarrow> re'\<lparr>lastIndex := 0\<rparr> = re\<lparr>lastIndex := 0\<rparr>"
  by (auto simp: exec_def split: option.splits if_splits prod.splits)

subsection \<open>The expression of a literal keyword\<close>

lemma escape_term_specials:
  "list_all (\<lambda>c. escape_term c = Inr (Lit c, True)) (''.*+?^${}()|[]'' @ [bs])"
  by code_simp

lemma escape_term_special: "special c \<Longrightarrow> escape_term c = Inr (Lit c, True)"
  using escape_term_specials unfolding special_def list_all_iff by auto

lemma parse_plain:
  "\<not> special c \<Longrightarrow> parse (c # cs) cur outer = parse cs (add_term (Lit c, True) cur) outer"
  by (simp add: special_def)


lemma parse_escaped_char:
  "special c \<Longrightarrow> parse (bs # c # cs) cur outer = parse cs (add_term (Lit c, True) cur) outer"
  by (simp add: escape_term_special)

lemma escapeRegExp_Cons:
  "escapeRegExp (c # cs) = (if special c then [bs, c] else [c]) @ escapeRegExp cs"
  by (simp add: escapeRegExp_def special_def)

lemma escapeRegExp_Nil: "escapeRegExp [] = []"
  by (simp add: escapeRegExp_def)

lemma parse_escapeRegExp:
  "parse (escapeRegExp k @ rest) cur outer
     = parse rest (cur\<lparr>terms := terms cur @ map (\<lambda>c. (Lit c, True)) k\<rparr>) outer"
proof (induction k arbitrary: cur)
  case Nil
  then show ?case by (simp add: escapeRegExp_Nil)
next
  case (Cons c k)
  show ?case
  proof (cases "special c")
    case True
    then show ?thesis
      using Cons.IH [of "add_term (Lit c, True) cur"]
      by (simp add: escapeRegExp_Cons parse_escaped_char add_term_def del: parse.simps)
  next
    case False
    then show ?thesis
      using Cons.IH [of "add_term (Lit c, True) cur"]
      by (simp add: escapeRegExp_Cons parse_plain add_term_def del: parse.simps)
  qed
qed

lemma parse_word_boundary:
  "parse (bs # CHR ''b'' # cs) cur outer = parse cs (add_term (WordB, False) cur) outer"
  by (simp add: escape_term_def)

lemma RegExp_new_keyword:
  "RegExp_new (bs # CHR ''b'' # escapeRegExp k @ [bs, CHR ''b'']) flags
     = Inr \<lparr>source = keyword_rx k, global = (CHR ''g'' \<in> set flags),
            ignoreCase = (CHR ''i'' \<in> set flags), multiline = (CHR ''m'' \<in> set flags),
            lastIndex = 0\<rparr>"
proof -
  have "parse (bs # CHR ''b'' # escapeRegExp k @ [bs, CHR ''b'']) empty_frame []
          = parse [] \<lparr>alts = [], terms = (WordB, False) # map (\<lambda>c. (Lit c, True)) k @ [(WordB, False)]\<rparr> []"
    using parse_escapeRegExp [of k "[bs, CHR ''b'']" "add_term (WordB, False) empty_frame" "[]"]
    by (simp add: parse_word_boundary add_term_def empty_frame_def del: parse.simps)
  then have "parse (bs # CHR ''b'' # escapeRegExp k @ [bs, CHR ''b'']) empty_frame [] = Inr (keyword_rx k)"
    by (simp add: close_frame_def keyword_rx_def)
  then show ?thesis by (simp add: RegExp_new_def)
qed

lemma keyword_regexp_advancing:
  "k \<noteq> [] \<Longrightarrow>
   advancing \<lparr>source = keyword_rx k, global = True, ignoreCase = ic, multiline = ml, lastIndex = n\<rparr>"
  by (auto simp: advancing_def dest: rx_match_keyword_rx)

lemma Lit_seq_advancing:
  "tok \<noteq> [] \<Longrightarrow> advancing (regex_gm (cat_list (map Lit tok @ rest)))"
proof -
  assume ne: "tok \<noteq> []"
  have "i < j" if "j \<in> set (rx_match ic ml s (cat_list (map Lit tok @ rest)) i)" for ic ml s i j
  proof -
    from that have "j \<in> set (rx_match ic ml s (foldr Cat (map Lit tok) (cat_list rest)) i)"
      by (simp add: cat_list_def)
    from rx_match_bounds [OF rx_match_Lit_seq [OF this]] ne show ?thesis
      by (cases tok) auto
  qed
  then show ?thesis by (auto simp: advancing_def regex_gm_def)
qed

lemma single_advancing: "tok \<noteq> [] \<Longrightarrow> advancing (pattern (single tok))"
  by (simp add: single_def Lit_seq_advancing)

lemma multi_advancing: "tok \<noteq> [] \<Longrightarrow> advancing (pattern (multi tok closing))"
  by (simp add: multi_def Lit_seq_advancing)

lemma getCommentPatterns_advancing:
  "list_all (\<lambda>d. advancing (pattern d)) (getCommentPatterns lang)"
  by (simp add: getCommentPatterns_def c_style_def hash_only_def single_advancing multi_advancing)

lemma getCommentPatterns_fresh:
  "list_all (\<lambda>d. lastIndex (pattern d) = 0) (getCommentPatterns lang)"
  by (simp add: getCommentPatterns_def c_style_def hash_only_def single_def multi_def regex_gm_def)

section \<open>The literal matcher\<close>

lemmas comment_loop_induct = comment_loop.raw_induct [rotated, consumes 1, case_names step]

lemma comment_loop_result:
  assumes "comment_loop p doc kw cs rs = Some r"
  shows "fst r = None \<and> (snd (snd r))\<lparr>lastIndex := 0\<rparr> = p\<lparr>lastIndex := 0\<rparr>"
  using assms
proof (induction rule: comment_loop_induct)
  case (step loop pat doc keyword caseSensitive ranges r)
  obtain m pat' where ex: "exec pat doc = (m, pat')" by (cases "exec pat doc")
  note keep = exec_keeps [OF ex]
  show ?case
  proof (cases m)
    case None
    with step(2) ex keep show ?thesis by auto
  next
    case (Some match)
    with step(2) ex obtain rs1 where "loop pat' doc keyword caseSensitive rs1 = Some r"
      by (auto simp: RegExp_new_keyword split: Option.bind_splits)
    from step(1) [OF this] keep show ?thesis by simp
  qed
qed

lemma rewound_fresh: "lastIndex (pattern d) = 0 \<Longrightarrow> rewound d = d"
  by (simp add: rewound_def)

lemma keyword_pattern_result:
  assumes "keyword_pattern doc kw cs d rs w = Some (d', rs', w')"
  shows "d' = rewound d \<and> w' = w"
proof -
  from assms obtain thrown p' where
    loop: "comment_loop (pattern d) doc kw cs rs = Some (thrown, rs', p')"
    and res: "(case thrown of
                None \<Rightarrow> Some (d\<lparr>pattern := p'\<lparr>lastIndex := 0\<rparr>\<rparr>, rs', w)
              | Some e \<Rightarrow>
                  Some (d\<lparr>pattern := p'\<rparr>, rs',
                        logError (''Error processing pattern for keyword '' @ [CHR 0x27] @ kw
                                    @ [CHR 0x27]) (Some (exn_message e)) w)) = Some (d', rs', w')"
    by (auto simp: keyword_pattern_def split: Option.bind_splits option.splits)
  from comment_loop_result [OF loop] have "thrown = None"
    and "p'\<lparr>lastIndex := 0\<rparr> = (pattern d)\<lparr>lastIndex := 0\<rparr>" by simp_all
  with res show ?thesis by (auto simp: rewound_def)
qed

lemma forEach_keyword_pattern_result:
  assumes "forEach_pattern (keyword_pattern doc kw cs) ds rs w = Some (ds', rs', w')"
  shows "ds' = map rewound ds \<and> w' = w"
  using assms
proof (induction ds arbitrary: rs ds' rs' w')
  case Nil
  then show ?case by simp
next
  case (Cons d ds)
  from Cons.prems obtain d1 rs1 w1 ds2 where
    one: "keyword_pattern doc kw cs d rs w = Some (d1, rs1, w1)"
    and more: "forEach_pattern (keyword_pattern doc kw cs) ds rs1 w1 = Some (ds2, rs', w')"
    and ds': "ds' = d1 # ds2"
    by (auto split: Option.bind_splits)
  from keyword_pattern_result [OF one] have "d1 = rewound d" and w1: "w1 = w" by simp_all
  moreover from Cons.IH [OF more [unfolded w1]] have "ds2 = map rewound ds" and "w' = w" by simp_all
  ultimately show ?case using ds' by simp
qed

lemma map_rewound_fresh:
  "list_all (\<lambda>d. lastIndex (pattern d) = 0) ds \<Longrightarrow> map rewound ds = ds"
  by (induction ds) (simp_all add: rewound_fresh)

subsection \<open>The loops end\<close>

lemma keyword_loop_returns:
  "advancing re \<Longrightarrow> \<exists>rs'. keyword_loop re s st k rs = Some rs'"
proof (induction "length s - lastIndex re" arbitrary: re rs rule: less_induct)
  case less
  obtain m re' where ex: "exec re s = (m, re')" by (cases "exec re s")
  show ?case
  proof (cases m)
    case None
    with ex show ?thesis by (subst keyword_loop.simps) simp
  next
    case (Some km)
    from exec_advances [OF less.prems ex [unfolded Some]]
    have "length s - lastIndex re' < length s - lastIndex re" and "advancing re'" by auto
    from less.hyps [OF this] obtain rs' where
      "keyword_loop re' s st k
         (rs @ [Span (st + index km) (st + index km + length k)]) = Some rs'" by blast
    with ex Some show ?thesis by (subst keyword_loop.simps) simp
  qed
qed

lemma comment_loop_returns:
  assumes "k \<noteq> []"
  shows "advancing p \<Longrightarrow> \<exists>r. comment_loop p doc k cs rs = Some r"
proof (induction "length doc - lastIndex p" arbitrary: p rs rule: less_induct)
  case less
  obtain m p' where ex: "exec p doc = (m, p')" by (cases "exec p doc")
  show ?case
  proof (cases m)
    case None
    with ex show ?thesis by (subst comment_loop.simps) simp
  next
    case (Some cm)
    from exec_advances [OF less.prems ex [unfolded Some]]
    have dec: "length doc - lastIndex p' < length doc - lastIndex p" and adv: "advancing p'" by auto
    let ?kre = "\<lparr>source = keyword_rx k, global = True,
                 ignoreCase = (CHR ''i'' \<in> set (if truthy cs then ''g'' else ''gi'')),
                 multiline = False, lastIndex = 0\<rparr>"
    have kre: "RegExp_new (bs # CHR ''b'' # escapeRegExp k @ [bs, CHR ''b''])
                 (if truthy cs then ''g'' else ''gi'') = Inr ?kre"
      by (simp add: RegExp_new_keyword)
    from keyword_loop_returns [OF keyword_regexp_advancing [OF assms]]
    obtain rs1 where inner: "keyword_loop ?kre (matched cm) (index cm) k rs = Some rs1" by blast
    from less.hyps [OF dec adv] obtain r where "comment_loop p' doc k cs rs1 = Some r" by blast
    with ex Some kre inner show ?thesis
      by (subst comment_loop.simps) (cases r, simp)
  qed
qed


lemma keyword_pattern_returns:
  assumes "k \<noteq> []" and "advancing (pattern d)"
  shows "\<exists>rs'. keyword_pattern doc k cs d rs w = Some (rewound d, rs', w)"
proof -
  from comment_loop_returns [OF assms] obtain thrown rs' p' where
    loop: "comment_loop (pattern d) doc k cs rs = Some (thrown, rs', p')"
    by (metis prod_cases3)
  then obtain d' w' where "keyword_pattern doc k cs d rs w = Some (d', rs', w')"
    by (cases thrown) (simp_all add: keyword_pattern_def)
  with keyword_pattern_result [OF this] show ?thesis by auto
qed

lemma forEach_keyword_pattern_returns:
  assumes "k \<noteq> []" and "list_all (\<lambda>d. advancing (pattern d)) ds"
  shows "\<exists>rs'. forEach_pattern (keyword_pattern doc k cs) ds rs w = Some (map rewound ds, rs', w)"
  using assms(2)
proof (induction ds arbitrary: rs)
  case Nil
  then show ?case by simp
next
  case (Cons d ds)
  from Cons.prems have a: "advancing (pattern d)" and rest: "list_all (\<lambda>d. advancing (pattern d)) ds"
    by simp_all
  from keyword_pattern_returns [OF assms(1) a] obtain rs1 where
    one: "keyword_pattern doc k cs d rs w = Some (rewound d, rs1, w)" by blast
  from Cons.IH [OF rest] obtain rs2 where
    "forEach_pattern (keyword_pattern doc k cs) ds rs1 w = Some (map rewound ds, rs2, w)" by blast
  with one show ?case by simp
qed

lemma literal_matcher_returns:
  assumes "keyword \<noteq> []"
    and "\<not> (truthy (config_get w ''enableRegexKeywords'' (JBool False)) \<and> isRegexKeyword keyword)"
    and "list_all (\<lambda>d. advancing (pattern d)) ds"
  shows "\<exists>ranges. findCommentKeywords doc keyword ds cs w = Some (ranges, map rewound ds, w)"
proof -
  from forEach_keyword_pattern_returns [OF assms(1,3)] obtain rs where
    "forEach_pattern (keyword_pattern doc keyword cs) ds [] w = Some (map rewound ds, rs, w)"
    by blast
  with assms(2) show ?thesis by (auto simp: findCommentKeywords_def Let_def)
qed

subsection \<open>The log and the settings play no part\<close>






text \<open>
  Claim C2: for the text \<open>// TODO: fix this\<close>, a newline, and
  \<open>let x = 5; // not a comment marker TODOX\<close>, the matcher with the literal keyword
  \<open>TODO\<close>, not case sensitive, over the JavaScript descriptors returns exactly one range,
  which covers the \<open>TODO\<close> of the first line; the \<open>TODOX\<close> of the second comment, at offset
  53, gives none, although that comment is scanned: the keyword \<open>TODOX\<close> is found there.
\<close>

theorem todo_matches_once:
  "map_option fst
     (findCommentKeywords
        (''// TODO: fix this'' @ [CHR 0x0A] @ ''let x = 5; // not a comment marker TODOX'')
        ''TODO'' (getCommentPatterns ''javascript'') (JBool False) initial_world)
     = Some [Span 3 7]
   \<and> take 4 (drop 3 (''// TODO: fix this'' @ [CHR 0x0A] @ ''let x = 5; // not a comment marker TODOX''))
       = ''TODO''
   \<and> take 5 (drop 53 (''// TODO: fix this'' @ [CHR 0x0A] @ ''let x = 5; // not a comment marker TODOX''))
       = ''TODOX''
   \<and> map_option fst
      (findCommentKeywords
        (''// TODO: fix this'' @ [CHR 0x0A] @ ''let x = 5; // not a comment marker TODOX'')
        ''TODOX'' (getCommentPatterns ''javascript'') (JBool False) initial_world)
     = Some [Span 53 58]"
  by code_simp

text \<open>
  Claim C10: two successive calls of the literal matcher with the same arguments return
  the same ranges. A call that returns leaves every pattern object with its cursor at 0
  and otherwise as it was, and leaves the log alone: no exception can occur, since the
  expression of an escaped keyword always compiles. So when the cursors are at 0 before
  the call, as \<open>getCommentPatterns\<close> and every earlier call leave them, the next call starts
  from the same state and returns the same. On descriptors that advance, the table's
  among them, and a keyword that is not empty the call does return.
\<close>

theorem literal_matcher_repeatable:
  assumes "\<not> (truthy (config_get w ''enableRegexKeywords'' (JBool False)) \<and> isRegexKeyword keyword)"
  shows "(findCommentKeywords doc keyword commentPatterns caseSensitive w
            = Some (ranges, commentPatterns', w')
          \<longrightarrow> commentPatterns' = map rewound commentPatterns \<and> w' = w
              \<and> list_all (\<lambda>d. lastIndex (pattern d) = 0) commentPatterns'
              \<and> (list_all (\<lambda>d. lastIndex (pattern d) = 0) commentPatterns
                  \<longrightarrow> commentPatterns' = commentPatterns
                      \<and> findCommentKeywords doc keyword commentPatterns' caseSensitive w'
                          = Some (ranges, commentPatterns', w')))
         \<and> (keyword \<noteq> [] \<and> list_all (\<lambda>d. advancing (pattern d)) commentPatterns
            \<longrightarrow> (\<exists>found. findCommentKeywords doc keyword commentPatterns caseSensitive w
                           = Some (found, map rewound commentPatterns, w)))"
proof (intro conjI impI)
  assume call: "findCommentKeywords doc keyword commentPatterns caseSensitive w
                  = Some (ranges, commentPatterns', w')"
  with assms have each:
    "forEach_pattern (keyword_pattern doc keyword caseSensitive) commentPatterns [] w
       = Some (commentPatterns', ranges, w')"
    by (auto simp: findCommentKeywords_def Let_def split: Option.bind_splits)
  from forEach_keyword_pattern_result [OF each]
  show rw: "commentPatterns' = map rewound commentPatterns" and w: "w' = w" by simp_all
  show "list_all (\<lambda>d. lastIndex (pattern d) = 0) commentPatterns'"
    unfolding rw by (induction commentPatterns) (simp_all add: rewound_def)
  assume fresh: "list_all (\<lambda>d. lastIndex (pattern d) = 0) commentPatterns"
  from rw map_rewound_fresh [OF fresh] show same: "commentPatterns' = commentPatterns" by simp
  from same w call show "findCommentKeywords doc keyword commentPatterns' caseSensitive w'
                           = Some (ranges, commentPatterns', w')" by simp
next
  assume "keyword \<noteq> [] \<and> list_all (\<lambda>d. advancing (pattern d)) commentPatterns"
  then have ne: "keyword \<noteq> []" and adv: "list_all (\<lambda>d. advancing (pattern d)) commentPatterns"
    by simp_all
  from literal_matcher_returns [OF ne assms adv, of doc caseSensitive]
  show "\<exists>found. findCommentKeywords doc keyword commentPatterns caseSensitive w
                  = Some (found, map rewound commentPatterns, w)" by simp
qed

theorem literal_matcher_repeatable_witness:
  "\<not> (truthy (config_get initial_world ''enableRegexKeywords'' (JBool False))
        \<and> isRegexKeyword ''TODO'')
   \<and> list_all (\<lambda>d. lastIndex (pattern d) = 0) (getCommentPatterns ''javascript'')
   \<and> ''TODO'' \<noteq> [] \<and> list_all (\<lambda>d. advancing (pattern d)) (getCommentPatterns ''javascript'')
   \<and> findCommentKeywords ''x // TODO: a todo'' ''TODO'' (getCommentPatterns ''javascript'')
        (JBool False) initial_world
       = Some ([Span 5 9, Span 13 17], getCommentPatterns ''javascript'', initial_world)"
proof -
  let ?cps = "getCommentPatterns ''javascript''"
  have fresh: "list_all (\<lambda>d. lastIndex (pattern d) = 0) ?cps"
    by (rule getCommentPatterns_fresh)
  have adv: "list_all (\<lambda>d. advancing (pattern d)) ?cps"
    by (rule getCommentPatterns_advancing)
  have lit: "\<not> (truthy (config_get initial_world ''enableRegexKeywords'' (JBool False))
               \<and> isRegexKeyword ''TODO'')"
    by (simp add: isRegexKeyword_def)
  have rs: "map_option fst (findCommentKeywords ''x // TODO: a todo'' ''TODO'' ?cps
              (JBool False) initial_world) = Some [Span 5 9, Span 13 17]"
    by code_simp
  from literal_matcher_repeatable
         [OF lit, where doc = "''x // TODO: a todo''" and caseSensitive = "JBool False"
            and commentPatterns = ?cps]
  have "''TODO'' \<noteq> [] \<and> list_all (\<lambda>d. advancing (pattern d)) ?cps
        \<longrightarrow> (\<exists>found. findCommentKeywords ''x // TODO: a todo'' ''TODO'' ?cps (JBool False)
                          initial_world = Some (found, map rewound ?cps, initial_world))"
    by (rule conjunct2)
  with adv obtain found where
    "findCommentKeywords ''x // TODO: a todo'' ''TODO'' ?cps (JBool False) initial_world
       = Some (found, map rewound ?cps, initial_world)" by auto
  with rs fresh adv lit map_rewound_fresh [OF fresh] show ?thesis by simp
qed

section \<open>Regular expression keywords\<close>











section \<open>The scan\<close>

lemma shown_frame [simp]:
  "documentText (shown rs dt ed) = documentText ed" "faulty (shown rs dt ed) = faulty ed"
  "languageId (shown rs dt ed) = languageId ed"
  by (simp_all add: shown_def split: option.splits)













end
